theory Spec2Isabelle
  imports Complex_Main "HOL-Library.AList" "HOL-Library.Word"
begin

section \<open>Python values, declared types and storage values\<close>

text \<open>
  A Python float is carried as its IEEE-754 binary64 bit pattern: the mapping layer never
  computes with it, it only hands it on. A dict is an association list (keys in insertion
  order, distinct).
\<close>

type_synonym pyfloat = "64 word"

datatype pyval =
    PNone
  | PBool bool
  | PInt int
  | PFloat pyfloat
  | PStr string
  | PList "pyval list"
  | PDict "(string \<times> pyval) list"

text \<open>
  A declared field type. \<open>TGeneric args\<close> is any annotation for which \<^verbatim>\<open>get_origin\<close>
  is not None, with its \<^verbatim>\<open>__args__\<close>: \<^verbatim>\<open>Optional[X]\<close> and \<^verbatim>\<open>X | None\<close> are
  \<open>TGeneric [X, TNone]\<close>. \<open>TOther\<close> is every other annotation.
\<close>

datatype pytype =
    TInt | TStr | TFloat | TBool | TDict | TList | TNone
  | TGeneric "pytype list"
  | TOther string

datatype sqlval = SNull | SInt int | SReal pyfloat | SText string

datatype error =
    TypeError string
  | KeyError string
  | ValueError string
  | AttributeError string
  | IndexError string
  | ZeroDivisionError
  | OverflowError
  | JSONDecodeError
  | ProgrammingError
  | IntegrityError
  | OperationalError string

type_synonym pydict = "(string \<times> pyval) list"

type_synonym row = "(string \<times> sqlval) list"

text \<open>
  What the interpreter and its libraries supply: the JSON library, the UUID generator and
  the clock. The \<open>n\<close>-th call of \<^verbatim>\<open>uuid.uuid4()\<close> returns \<open>uuid4 E n\<close>, the \<open>n\<close>-th
  reading of the clock is \<open>utcnow E n\<close>.
\<close>

record env =
  json_dumps :: "pyval \<Rightarrow> error + string"
  json_loads :: "pyval \<Rightarrow> error + pyval"
  uuid4 :: "nat \<Rightarrow> string"
  utcnow :: "nat \<Rightarrow> string"

subsection \<open>The sqlite3 adapter: binding parameters, fetching columns\<close>

definition bind :: "pyval \<Rightarrow> error + sqlval" where
  "bind v = (case v of
      PNone \<Rightarrow> Inr SNull
    | PBool b \<Rightarrow> Inr (SInt (if b then 1 else 0))
    | PInt n \<Rightarrow> (if - (2 ^ 63) \<le> n \<and> n < 2 ^ 63 then Inr (SInt n) else Inl OverflowError)
    | PFloat x \<Rightarrow> Inr (SReal x)
    | PStr s \<Rightarrow> Inr (SText s)
    | PList xs \<Rightarrow> Inl ProgrammingError
    | PDict kvs \<Rightarrow> Inl ProgrammingError)"

definition fetch :: "sqlval \<Rightarrow> pyval" where
  "fetch s = (case s of
      SNull \<Rightarrow> PNone
    | SInt n \<Rightarrow> PInt n
    | SReal x \<Rightarrow> PFloat x
    | SText t \<Rightarrow> PStr t)"

text \<open>Python's \<^verbatim>\<open>bool(value)\<close>.\<close>

definition py_bool :: "pyval \<Rightarrow> bool" where
  "py_bool v = (case v of
      PNone \<Rightarrow> False
    | PBool b \<Rightarrow> b
    | PInt n \<Rightarrow> n \<noteq> 0
    | PFloat x \<Rightarrow> take_bit 63 x \<noteq> 0
    | PStr s \<Rightarrow> s \<noteq> []
    | PList xs \<Rightarrow> xs \<noteq> []
    | PDict kvs \<Rightarrow> kvs \<noteq> [])"

section \<open>Type descriptors\<close>

definition TYPE_MAP :: "pytype \<Rightarrow> string option" where
  "TYPE_MAP t = (case t of
      TInt \<Rightarrow> Some ''INTEGER''
    | TStr \<Rightarrow> Some ''TEXT''
    | TFloat \<Rightarrow> Some ''REAL''
    | TBool \<Rightarrow> Some ''INTEGER''
    | TDict \<Rightarrow> Some ''TEXT''
    | TList \<Rightarrow> Some ''TEXT''
    | _ \<Rightarrow> None)"

definition AUTO_FIELDS :: "string list" where
  "AUTO_FIELDS = [''id'', ''created_at'', ''updated_at'', ''deleted_at'']"

text \<open>
  The first lines shared by the three type helpers: a type with an origin is replaced by
  its first argument that is not \<^verbatim>\<open>NoneType\<close>, or by \<^verbatim>\<open>str\<close>.
\<close>

definition unwrap :: "pytype \<Rightarrow> pytype" where
  "unwrap t = (case t of
      TGeneric args \<Rightarrow> (case filter (\<lambda>a. a \<noteq> TNone) args of [] \<Rightarrow> TStr | a # _ \<Rightarrow> a)
    | _ \<Rightarrow> t)"

definition get_sqlite_type :: "pytype \<Rightarrow> string" where
  "get_sqlite_type t = (case TYPE_MAP (unwrap t) of Some s \<Rightarrow> s | None \<Rightarrow> ''TEXT'')"

definition is_json_type :: "pytype \<Rightarrow> bool" where
  "is_json_type t = (unwrap t \<in> set [TDict, TList])"

definition is_bool_type :: "pytype \<Rightarrow> bool" where
  "is_bool_type t = (unwrap t = TBool)"

record FieldInfo =
  name :: string
  py_type :: pytype
  sql_type :: string
  is_json :: bool
  is_bool :: bool

record Count =
  total :: int
  pages :: int
  per_page :: int

text \<open>A dataclass: its name and its declared fields in order.\<close>

record pyclass =
  cls_name :: string
  cls_fields :: "(string \<times> pytype) list"

definition get_fields :: "pyclass \<Rightarrow> FieldInfo list" where
  "get_fields c = map (\<lambda>(n, t).
      \<lparr>name = n, py_type = t, sql_type = get_sqlite_type t,
       is_json = is_json_type t, is_bool = is_bool_type t\<rparr>) (cls_fields c)"

definition has_soft_delete :: "pyclass \<Rightarrow> bool" where
  "has_soft_delete c = (''deleted_at'' \<in> set (map fst (cls_fields c)))"

text \<open>An instance of a dataclass: its class name and its attributes.\<close>

datatype inst = Instance string pydict

section \<open>The table handle\<close>

record Table =
  t_cls :: string
  t_table :: string
  t_fields :: "FieldInfo list"
  t_soft_delete :: bool

definition field_map :: "Table \<Rightarrow> string \<Rightarrow> FieldInfo option" where
  "field_map T = map_of (map (\<lambda>f. (name f, f)) (t_fields T))"

text \<open>
  The handle that \<^verbatim>\<open>Table.__init__\<close> builds for a dataclass (the table name is the
  class name; lowercasing does not bear on anything below and is left out).
\<close>

definition Table_init :: "pyclass \<Rightarrow> Table" where
  "Table_init c = \<lparr>t_cls = cls_name c, t_table = cls_name c, t_fields = get_fields c,
     t_soft_delete = has_soft_delete c\<rparr>"

subsection \<open>The value codec\<close>

fun to_row_loop :: "env \<Rightarrow> Table \<Rightarrow> pydict \<Rightarrow> pydict \<Rightarrow> error + pydict" where
  "to_row_loop E T [] row = Inr row"
| "to_row_loop E T ((key, v) # kwargs) row =
     (case field_map T key of
        None \<Rightarrow> Inl (KeyError key)
      | Some field \<Rightarrow>
          if v = PNone then to_row_loop E T kwargs (AList.update key PNone row)
          else if is_json field then
            (case json_dumps E v of
               Inl e \<Rightarrow> Inl e
             | Inr s \<Rightarrow> to_row_loop E T kwargs (AList.update key (PStr s) row))
          else to_row_loop E T kwargs (AList.update key v row))"

definition to_row :: "env \<Rightarrow> Table \<Rightarrow> pydict \<Rightarrow> error + pydict" where
  "to_row E T kwargs = to_row_loop E T kwargs []"

fun from_row_loop :: "env \<Rightarrow> FieldInfo list \<Rightarrow> row \<Rightarrow> pydict \<Rightarrow> error + pydict" where
  "from_row_loop E [] r data = Inr data"
| "from_row_loop E (f # fs) r data =
     (case map_of r (name f) of
        None \<Rightarrow> Inl (IndexError (name f))
      | Some s \<Rightarrow>
          (let v = fetch s in
           if v = PNone then from_row_loop E fs r (AList.update (name f) PNone data)
           else if is_json f then
             (case json_loads E v of
                Inl e \<Rightarrow> Inl e
              | Inr d \<Rightarrow> from_row_loop E fs r (AList.update (name f) d data))
           else if is_bool f then
             from_row_loop E fs r (AList.update (name f) (PBool (py_bool v)) data)
           else from_row_loop E fs r (AList.update (name f) v data)))"

definition from_row :: "env \<Rightarrow> Table \<Rightarrow> row \<Rightarrow> error + inst" where
  "from_row E T r = (case from_row_loop E (t_fields T) r [] of
       Inl e \<Rightarrow> Inl e
     | Inr data \<Rightarrow> Inr (Instance (t_cls T) data))"

section \<open>The storage engine\<close>

text \<open>
  A statement as the table handle issues it: the shape of the SQL text together with its
  parameter tuple, still as Python values. \<open>Eq c v\<close> is \<^verbatim>\<open>c = ?\<close> with parameter
  \<open>v\<close>, \<open>IsNull c\<close> is \<^verbatim>\<open>c IS NULL\<close>; the condition list is joined by \<^verbatim>\<open>AND\<close>; the
  pair of a \<open>Select\<close> is \<^verbatim>\<open>LIMIT l OFFSET o\<close>. \<open>Malformed\<close> is a text the engine cannot
  parse (a \<^verbatim>\<open>WHERE\<close> with nothing before its \<^verbatim>\<open>AND\<close>).
\<close>

datatype cond = Eq string pyval | IsNull string

datatype stmt =
    CreateTable
  | Insert pydict
  | Select "cond list" "(int \<times> int) option"
  | Update pydict "cond list"
  | Delete "cond list"
  | SelectCount "cond list"
  | Malformed

fun cond_col :: "cond \<Rightarrow> string" where
  "cond_col (Eq c v) = c"
| "cond_col (IsNull c) = c"

fun cond_params :: "cond \<Rightarrow> pyval list" where
  "cond_params (Eq c v) = [v]"
| "cond_params (IsNull c) = []"

fun bind_all :: "pyval list \<Rightarrow> error + sqlval list" where
  "bind_all [] = Inr []"
| "bind_all (v # vs) =
     (case bind v of
        Inl e \<Rightarrow> Inl e
      | Inr s \<Rightarrow> (case bind_all vs of Inl e \<Rightarrow> Inl e | Inr ss \<Rightarrow> Inr (s # ss)))"

text \<open>
  SQL comparison: \<^verbatim>\<open>c = ?\<close> is true only when both sides are non-null and equal.
  Conversions between storage classes (column affinity) are not modelled: a stored value
  is the bound value.
\<close>

fun holds :: "row \<Rightarrow> cond \<Rightarrow> bool" where
  "holds r (Eq c v) =
     (case bind v of Inl e \<Rightarrow> False | Inr s \<Rightarrow> s \<noteq> SNull \<and> map_of r c = Some s)"
| "holds r (IsNull c) = (map_of r c = Some SNull)"

definition matching :: "cond list \<Rightarrow> row list \<Rightarrow> row list" where
  "matching conds tbl = filter (\<lambda>r. list_all (holds r) conds) tbl"

text \<open>A negative \<^verbatim>\<open>LIMIT\<close> is no limit, a negative \<^verbatim>\<open>OFFSET\<close> is 0.\<close>

definition paginate :: "(int \<times> int) option \<Rightarrow> row list \<Rightarrow> row list" where
  "paginate pg rs = (case pg of
      None \<Rightarrow> rs
    | Some (l, off) \<Rightarrow> (if l < 0 then drop (nat off) rs else take (nat l) (drop (nat off) rs)))"

definition assign :: "row \<Rightarrow> row \<Rightarrow> row" where
  "assign sets r = map (\<lambda>(c, old). (c, case map_of sets c of Some s \<Rightarrow> s | None \<Rightarrow> old)) r"

definition new_row :: "string list \<Rightarrow> row \<Rightarrow> row" where
  "new_row cols vals = map (\<lambda>c. (c, case map_of vals c of Some s \<Rightarrow> s | None \<Rightarrow> SNull)) cols"

text \<open>The \<^verbatim>\<open>id\<close> column is the primary key: a non-null id is stored once.\<close>

definition pk_clash :: "row \<Rightarrow> row list \<Rightarrow> bool" where
  "pk_clash r tbl = (case map_of r ''id'' of
      None \<Rightarrow> False
    | Some s \<Rightarrow> s \<noteq> SNull \<and> Some s \<in> set (map (\<lambda>old. map_of old ''id'') tbl))"

definition known_cols :: "string list \<Rightarrow> string list \<Rightarrow> bool" where
  "known_cols cols cs = list_all (\<lambda>c. c \<in> set cols) cs"

text \<open>
  A statement is compiled first (it may name only columns of the table), then its
  parameters are bound.
\<close>

definition prepare :: "string list \<Rightarrow> string list \<Rightarrow> pyval list \<Rightarrow> error + sqlval list" where
  "prepare cols used params =
     (if \<not> known_cols cols used then Inl (OperationalError ''no such column'')
      else bind_all params)"

definition params_of :: "cond list \<Rightarrow> pyval list" where
  "params_of conds = concat (map cond_params conds)"

text \<open>
  One statement against the table with columns \<open>cols\<close>: the result set and the table
  afterwards.
\<close>

definition exec :: "string list \<Rightarrow> stmt \<Rightarrow> row list \<Rightarrow> error + (row list \<times> row list)" where
  "exec cols st tbl = (case st of
      CreateTable \<Rightarrow> Inr ([], tbl)
    | Malformed \<Rightarrow> Inl (OperationalError ''syntax error'')
    | Insert kvs \<Rightarrow>
        (case prepare cols (map fst kvs) (map snd kvs) of
           Inl e \<Rightarrow> Inl e
         | Inr ss \<Rightarrow>
             (let r = new_row cols (zip (map fst kvs) ss) in
              if pk_clash r tbl then Inl IntegrityError else Inr ([], tbl @ [r])))
    | Select conds pg \<Rightarrow>
        (case prepare cols (map cond_col conds) (params_of conds) of
           Inl e \<Rightarrow> Inl e
         | Inr ss \<Rightarrow> Inr (paginate pg (matching conds tbl), tbl))
    | SelectCount conds \<Rightarrow>
        (case prepare cols (map cond_col conds) (params_of conds) of
           Inl e \<Rightarrow> Inl e
         | Inr ss \<Rightarrow> Inr ([[(''COUNT(*)'', SInt (int (length (matching conds tbl))))]], tbl))
    | Update kvs conds \<Rightarrow>
        (case prepare cols (map fst kvs @ map cond_col conds)
                (map snd kvs @ params_of conds) of
           Inl e \<Rightarrow> Inl e
         | Inr ss \<Rightarrow>
             Inr ([], map (\<lambda>r. if list_all (holds r) conds
                                then assign (zip (map fst kvs) ss) r else r) tbl))
    | Delete conds \<Rightarrow>
        (case prepare cols (map cond_col conds) (params_of conds) of
           Inl e \<Rightarrow> Inl e
         | Inr ss \<Rightarrow> Inr ([], filter (\<lambda>r. \<not> list_all (holds r) conds) tbl)))"

section \<open>The world: stored rows, statements issued, calls made\<close>

record world =
  rows :: "row list"
  trace :: "stmt list"
  uuid_calls :: nat
  now_calls :: nat

type_synonym 'a action = "world \<Rightarrow> (error + 'a) \<times> world"

text \<open>\<^verbatim>\<open>Table._sql\<close>: every statement handed to the engine is recorded in \<open>trace\<close>.\<close>

definition sql :: "Table \<Rightarrow> stmt \<Rightarrow> (row list) action" where
  "sql T st w =
     (let w1 = w\<lparr>trace := trace w @ [st]\<rparr> in
      case exec (map name (t_fields T)) st (rows w) of
        Inl e \<Rightarrow> (Inl e, w1)
      | Inr (res, tbl) \<Rightarrow> (Inr res, w1\<lparr>rows := tbl\<rparr>))"

definition now :: "env \<Rightarrow> world \<Rightarrow> string \<times> world" where
  "now E w = (utcnow E (now_calls w), w\<lparr>now_calls := Suc (now_calls w)\<rparr>)"

definition new_uuid :: "env \<Rightarrow> world \<Rightarrow> string \<times> world" where
  "new_uuid E w = (uuid4 E (uuid_calls w), w\<lparr>uuid_calls := Suc (uuid_calls w)\<rparr>)"

text \<open>\<^verbatim>\<open>[self._from_row(r) for r in rows]\<close>\<close>

fun from_rows :: "env \<Rightarrow> Table \<Rightarrow> row list \<Rightarrow> error + inst list" where
  "from_rows E T [] = Inr []"
| "from_rows E T (r # rs) =
     (case from_row E T r of
        Inl e \<Rightarrow> Inl e
      | Inr x \<Rightarrow> (case from_rows E T rs of Inl e \<Rightarrow> Inl e | Inr xs \<Rightarrow> Inr (x # xs)))"

section \<open>Arguments of create, update and delete\<close>

text \<open>
  A positional argument: a dict, an instance of some dataclass, or anything else.
\<close>

datatype item = IDict pydict | IObj inst | IOther pyval

text \<open>\<^verbatim>\<open>{n: getattr(item, n) for n in names}\<close>\<close>

fun getattrs :: "pydict \<Rightarrow> string list \<Rightarrow> error + pydict" where
  "getattrs attrs [] = Inr []"
| "getattrs attrs (n # ns) =
     (case map_of attrs n of
        None \<Rightarrow> Inl (AttributeError n)
      | Some v \<Rightarrow> (case getattrs attrs ns of Inl e \<Rightarrow> Inl e | Inr d \<Rightarrow> Inr ((n, v) # d)))"

text \<open>
  The loop over \<^verbatim>\<open>*items\<close> that the three methods share; \<open>of_obj\<close> is what each does
  with a dataclass instance.
\<close>

fun collect :: "Table \<Rightarrow> (pydict \<Rightarrow> error + pydict) \<Rightarrow> item list \<Rightarrow> error + pydict list" where
  "collect T of_obj [] = Inr []"
| "collect T of_obj (it # its) =
     (case (case it of
              IObj (Instance c attrs) \<Rightarrow> of_obj attrs
            | IDict d \<Rightarrow> Inr d
            | IOther v \<Rightarrow> Inl (TypeError (''Expected dict or '' @ t_cls T))) of
        Inl e \<Rightarrow> Inl e
      | Inr d \<Rightarrow> (case collect T of_obj its of Inl e \<Rightarrow> Inl e | Inr ds \<Rightarrow> Inr (d # ds)))"

definition records_of :: "Table \<Rightarrow> (pydict \<Rightarrow> error + pydict) \<Rightarrow> item list \<Rightarrow> pydict
    \<Rightarrow> error + pydict list" where
  "records_of T of_obj items kwargs =
     (case collect T of_obj items of
        Inl e \<Rightarrow> Inl e
      | Inr ds \<Rightarrow> Inr ((if kwargs \<noteq> [] then [kwargs] else []) @ ds))"

text \<open>
  \<^verbatim>\<open>for record in records: ...\<close> with a result list: \<open>body\<close> returns what the pass
  appends; an exception ends the loop.
\<close>

fun for_records :: "(pydict \<Rightarrow> (inst list) action) \<Rightarrow> pydict list \<Rightarrow> inst list
    \<Rightarrow> (inst list) action" where
  "for_records body [] results w = (Inr results, w)"
| "for_records body (r # rs) results w =
     (case body r w of
        (Inl e, w1) \<Rightarrow> (Inl e, w1)
      | (Inr new, w1) \<Rightarrow> for_records body rs (results @ new) w1)"

section \<open>The operations of the table handle\<close>

subsection \<open>create\<close>

definition create_one :: "env \<Rightarrow> Table \<Rightarrow> pydict \<Rightarrow> (inst list) action" where
  "create_one E T record w =
     (case to_row E T (filter (\<lambda>(k, v). k \<notin> set AUTO_FIELDS) record) of
        Inl e \<Rightarrow> (Inl e, w)
      | Inr row0 \<Rightarrow>
          (let (uid, w1) = new_uuid E w;
               row1 = AList.update ''id'' (PStr uid) row0;
               (row2, w2) =
                 (if field_map T ''created_at'' \<noteq> None
                  then (let (t, w') = now E w1 in (AList.update ''created_at'' (PStr t) row1, w'))
                  else (row1, w1));
               (row3, w3) =
                 (if field_map T ''updated_at'' \<noteq> None
                  then (let (t, w') = now E w2 in (AList.update ''updated_at'' (PStr t) row2, w'))
                  else (row2, w2))
           in case sql T (Insert row3) w3 of
                (Inl e, w4) \<Rightarrow> (Inl e, w4)
              | (Inr ignored, w4) \<Rightarrow>
                  (case sql T (Select [Eq ''id'' (PStr uid)] None) w4 of
                     (Inl e, w5) \<Rightarrow> (Inl e, w5)
                   | (Inr rs, w5) \<Rightarrow>
                       (case rs of
                          [] \<Rightarrow> (Inr [], w5)
                        | r # rest \<Rightarrow>
                            (case from_row E T r of
                               Inl e \<Rightarrow> (Inl e, w5)
                             | Inr x \<Rightarrow> (Inr [x], w5))))))"

text \<open>
  \<^verbatim>\<open>{f.name: getattr(item, f.name) for f in self._fields if f.name not in AUTO_FIELDS}\<close>
\<close>

definition create_of_obj :: "Table \<Rightarrow> pydict \<Rightarrow> error + pydict" where
  "create_of_obj T attrs =
     getattrs attrs (filter (\<lambda>n. n \<notin> set AUTO_FIELDS) (map name (t_fields T)))"

definition create :: "env \<Rightarrow> Table \<Rightarrow> item list \<Rightarrow> pydict \<Rightarrow> (inst list) action" where
  "create E T items kwargs w =
     (case records_of T (create_of_obj T) items kwargs of
        Inl e \<Rightarrow> (Inl e, w)
      | Inr records \<Rightarrow> for_records (create_one E T) records [] w)"

subsection \<open>read\<close>

definition conditions_of :: "Table \<Rightarrow> bool \<Rightarrow> pydict \<Rightarrow> cond list" where
  "conditions_of T include_deleted row =
     map (\<lambda>(k, v). Eq k v) row
     @ (if t_soft_delete T \<and> \<not> include_deleted then [IsNull ''deleted_at''] else [])"

definition read :: "env \<Rightarrow> Table \<Rightarrow> bool \<Rightarrow> int option \<Rightarrow> int \<Rightarrow> pydict
    \<Rightarrow> (inst list) action" where
  "read E T include_deleted page pp kwargs w =
     (case (if kwargs \<noteq> [] then to_row E T kwargs else Inr []) of
        Inl e \<Rightarrow> (Inl e, w)
      | Inr row \<Rightarrow>
          (let pg = (case page of None \<Rightarrow> None | Some p \<Rightarrow> Some (pp, (max 1 p - 1) * pp)) in
           case sql T (Select (conditions_of T include_deleted row) pg) w of
             (Inl e, w1) \<Rightarrow> (Inl e, w1)
           | (Inr rs, w1) \<Rightarrow> (from_rows E T rs, w1)))"

subsection \<open>update\<close>

definition update_one :: "env \<Rightarrow> Table \<Rightarrow> pydict \<Rightarrow> (inst list) action" where
  "update_one E T record w =
     (case map_of record ''id'' of
        None \<Rightarrow> (Inl (ValueError ''id required for update''), w)
      | Some item_id \<Rightarrow>
          if item_id = PNone then (Inl (ValueError ''id required for update''), w)
          else
            (let update_data =
                   filter (\<lambda>(k, v). k \<notin> set [''id'', ''created_at'', ''deleted_at'']) record in
             if update_data = [] \<and> field_map T ''updated_at'' = None then (Inr [], w)
             else
               (case to_row E T (filter (\<lambda>(k, v). k \<noteq> ''updated_at'') update_data) of
                  Inl e \<Rightarrow> (Inl e, w)
                | Inr row0 \<Rightarrow>
                    (let (row1, w1) =
                           (if field_map T ''updated_at'' \<noteq> None
                            then (let (t, w') = now E w
                                  in (AList.update ''updated_at'' (PStr t) row0, w'))
                            else (row0, w))
                     in if row1 = [] then (Inr [], w1)
                        else
                          (case sql T (Update row1 [Eq ''id'' item_id]) w1 of
                             (Inl e, w2) \<Rightarrow> (Inl e, w2)
                           | (Inr ignored, w2) \<Rightarrow>
                               (case sql T (Select [Eq ''id'' item_id] None) w2 of
                                  (Inl e, w3) \<Rightarrow> (Inl e, w3)
                                | (Inr rs, w3) \<Rightarrow>
                                    (case rs of
                                       [] \<Rightarrow> (Inr [], w3)
                                     | r # rest \<Rightarrow>
                                         (case from_row E T r of
                                            Inl e \<Rightarrow> (Inl e, w3)
                                          | Inr x \<Rightarrow> (Inr [x], w3)))))))))"

text \<open>\<^verbatim>\<open>{f.name: getattr(item, f.name) for f in self._fields}\<close>\<close>

definition update_of_obj :: "Table \<Rightarrow> pydict \<Rightarrow> error + pydict" where
  "update_of_obj T attrs = getattrs attrs (map name (t_fields T))"

definition update :: "env \<Rightarrow> Table \<Rightarrow> item list \<Rightarrow> pydict \<Rightarrow> (inst list) action" where
  "update E T items kwargs w =
     (case records_of T (update_of_obj T) items kwargs of
        Inl e \<Rightarrow> (Inl e, w)
      | Inr records \<Rightarrow> for_records (update_one E T) records [] w)"

subsection \<open>delete\<close>

text \<open>\<^verbatim>\<open>getattr(item, "id", None)\<close>, and the record made of it.\<close>

definition delete_of_obj :: "pydict \<Rightarrow> error + pydict" where
  "delete_of_obj attrs =
     (case map_of attrs ''id'' of
        None \<Rightarrow> Inl (ValueError ''id required for delete'')
      | Some item_id \<Rightarrow>
          if item_id \<noteq> PNone then Inr [(''id'', item_id)]
          else Inl (ValueError ''id required for delete''))"

text \<open>
  The statement of the batch branch: its conditions are the record's, joined by
  \<^verbatim>\<open>AND\<close>; with no condition the text is not SQL.
\<close>

definition delete_one :: "env \<Rightarrow> Table \<Rightarrow> bool \<Rightarrow> pydict \<Rightarrow> (inst list) action" where
  "delete_one E T hard record w =
     (case read E T hard None 10 record w of
        (Inl e, w1) \<Rightarrow> (Inl e, w1)
      | (Inr found, w1) \<Rightarrow>
          if found = [] then (Inr [], w1)
          else
            (case to_row E T record of
               Inl e \<Rightarrow> (Inl e, w1)
             | Inr row \<Rightarrow>
                 (let conds = map (\<lambda>(k, v). Eq k v) row in
                  if t_soft_delete T \<and> \<not> hard then
                    (let (t, w2) = now E w1 in
                     case sql T (if row = [] then Malformed
                                 else Update [(''deleted_at'', PStr t)]
                                        (conds @ [IsNull ''deleted_at''])) w2 of
                       (Inl e, w3) \<Rightarrow> (Inl e, w3)
                     | (Inr ignored, w3) \<Rightarrow> (Inr found, w3))
                  else
                    (case sql T (if row = [] then Malformed else Delete conds) w1 of
                       (Inl e, w3) \<Rightarrow> (Inl e, w3)
                     | (Inr ignored, w3) \<Rightarrow> (Inr found, w3)))))"

definition delete :: "env \<Rightarrow> Table \<Rightarrow> item list \<Rightarrow> bool \<Rightarrow> pydict \<Rightarrow> (inst list) action" where
  "delete E T items hard kwargs w =
     (case records_of T delete_of_obj items kwargs of
        Inl e \<Rightarrow> (Inl e, w)
      | Inr records \<Rightarrow>
          if records \<noteq> [] then for_records (delete_one E T hard) records [] w
          else
            (case read E T hard None 10 [] w of
               (Inl e, w1) \<Rightarrow> (Inl e, w1)
             | (Inr all_items, w1) \<Rightarrow>
                 if all_items = [] then (Inr [], w1)
                 else if t_soft_delete T \<and> \<not> hard then
                   (let (t, w2) = now E w1 in
                    case sql T (Update [(''deleted_at'', PStr t)] [IsNull ''deleted_at'']) w2 of
                      (Inl e, w3) \<Rightarrow> (Inl e, w3)
                    | (Inr ignored, w3) \<Rightarrow> (Inr all_items, w3))
                 else
                   (case sql T (Delete []) w1 of
                      (Inl e, w3) \<Rightarrow> (Inl e, w3)
                    | (Inr ignored, w3) \<Rightarrow> (Inr all_items, w3))))"

subsection \<open>count\<close>

text \<open>\<^verbatim>\<open>rows[0][0] if rows else 0\<close>, as the integer the arithmetic after it needs.\<close>

definition first_cell :: "row list \<Rightarrow> error + int" where
  "first_cell rs = (case rs of
      [] \<Rightarrow> Inr 0
    | r # rest \<Rightarrow>
        (case r of
           [] \<Rightarrow> Inl (IndexError ''0'')
         | (c, s) # cells \<Rightarrow>
             (case s of SInt n \<Rightarrow> Inr n | _ \<Rightarrow> Inl (TypeError ''not an integer''))))"

definition count :: "env \<Rightarrow> Table \<Rightarrow> bool \<Rightarrow> int \<Rightarrow> pydict \<Rightarrow> Count action" where
  "count E T include_deleted pp kwargs w =
     (case (if kwargs \<noteq> [] then to_row E T kwargs else Inr []) of
        Inl e \<Rightarrow> (Inl e, w)
      | Inr row \<Rightarrow>
          (case sql T (SelectCount (conditions_of T include_deleted row)) w of
             (Inl e, w1) \<Rightarrow> (Inl e, w1)
           | (Inr rs, w1) \<Rightarrow>
               (case first_cell rs of
                  Inl e \<Rightarrow> (Inl e, w1)
                | Inr tot \<Rightarrow>
                    if tot > 0 \<and> pp = 0 then (Inl ZeroDivisionError, w1)
                    else (Inr \<lparr>total = tot,
                               pages = (if tot > 0 then (tot + pp - 1) div pp else 0),
                               per_page = pp\<rparr>, w1))))"

section \<open>Basic facts about the handle, the codec and the engine\<close>

lemma names_Table_init: "map name (t_fields (Table_init c)) = map fst (cls_fields c)"
  by (simp add: Table_init_def get_fields_def comp_def case_prod_beta)

lemma field_map_None_iff: "field_map T k = None \<longleftrightarrow> k \<notin> set (map name (t_fields T))"
  by (simp add: field_map_def map_of_eq_None_iff image_image)

lemma field_map_name: "field_map T k = Some f \<Longrightarrow> name f = k"
  by (auto simp: field_map_def dest!: map_of_SomeD)

lemma to_row_Nil: "to_row E T [] = Inr []"
  by (simp add: to_row_def)

text \<open>
  A key that is not a field stops the encoding with \<open>KeyError\<close>, provided no value
  before it stops it first (the JSON library refusing a value).
\<close>

lemma to_row_loop_unknown:
  assumes "k \<in> fst ` set kw" and "field_map T k = None"
    and "\<forall>(k', v) \<in> set kw. \<exists>s. json_dumps E v = Inr s"
  shows "\<exists>k'. field_map T k' = None \<and> to_row_loop E T kw acc = Inl (KeyError k')"
  using assms
proof (induction kw arbitrary: acc)
  case Nil
  then show ?case by simp
next
  case (Cons a kw)
  obtain k0 v0 where a: "a = (k0, v0)" by (cases a)
  show ?case
  proof (cases "field_map T k0")
    case None
    then show ?thesis by (auto simp: a)
  next
    case (Some f)
    with Cons.prems a have "k \<in> fst ` set kw" by auto
    moreover from Cons.prems have "\<forall>(k', v) \<in> set kw. \<exists>s. json_dumps E v = Inr s" by auto
    ultimately have IH: "\<And>acc. \<exists>k'. field_map T k' = None \<and> to_row_loop E T kw acc = Inl (KeyError k')"
      using Cons.IH Cons.prems(2) by blast
    from Cons.prems(3) a obtain s0 where "json_dumps E v0 = Inr s0" by auto
    then show ?thesis using IH Some by (simp add: a)
  qed
qed

lemma to_row_unknown:
  assumes "k \<in> fst ` set kw" and "k \<notin> set (map name (t_fields T))"
    and "\<forall>(k', v) \<in> set kw. \<exists>s. json_dumps E v = Inr s"
  shows "\<exists>k'. k' \<notin> set (map name (t_fields T)) \<and> to_row E T kw = Inl (KeyError k')"
  using to_row_loop_unknown [OF assms(1) _ assms(3), of T "[]"] assms(2)
  by (simp add: to_row_def field_map_None_iff)

lemma sql_Select_rows: "rows (snd (sql T (Select cs pg) w)) = rows w"
  by (simp add: sql_def exec_def Let_def split: sum.splits)

lemma sql_SelectCount_rows: "rows (snd (sql T (SelectCount cs) w)) = rows w"
  by (simp add: sql_def exec_def Let_def split: sum.splits)

lemma sql_trace: "trace (snd (sql T st w)) = trace w @ [st]"
  by (simp add: sql_def Let_def split: sum.splits prod.splits)

lemma read_rows: "rows (snd (read E T incl page pp kw w)) = rows w"
proof -
  have "rows (snd (case sql T (Select cs pg) w of
             (Inl e, w1) \<Rightarrow> (Inl e, w1)
           | (Inr rs, w1) \<Rightarrow> (from_rows E T rs, w1))) = rows w" for cs pg
    using sql_Select_rows [of T cs pg w]
    by (cases "sql T (Select cs pg) w") (auto split: sum.splits)
  then show ?thesis
    by (simp add: read_def Let_def split: sum.splits)
qed

lemma count_rows: "rows (snd (count E T incl pp kw w)) = rows w"
proof -
  have *: "rows (snd (case sql T (SelectCount cs) w of
             (Inl e, w1) \<Rightarrow> (Inl e, w1)
           | (Inr rs, w1) \<Rightarrow> f rs w1)) = rows w" if "\<And>rs w1. snd (f rs w1) = w1" for cs f
    using sql_SelectCount_rows [of T cs w] that
    by (cases "sql T (SelectCount cs) w") (auto split: sum.splits)
  show ?thesis
    unfolding count_def
    apply (simp split: sum.splits)
    apply (intro conjI impI allI)
     apply (rule *; simp split: sum.splits)+
    done
qed

section \<open>Frame: reading and counting\<close>

text \<open>
  Claim C9. For every table state, every filter and every option, \<open>read\<close> and \<open>count\<close>
  leave the stored rows as they were: whether the call returns or raises, no row is
  inserted, changed or removed.
\<close>

theorem read_count_frame:
  "rows (snd (read E T include_deleted page pp kwargs w)) = rows w
   \<and> rows (snd (count E T include_deleted pp kwargs w)) = rows w"
  by (simp add: read_rows count_rows)

end
